theory Spec2Isabelle
  imports Main "HOL-Library.Word"
begin

section \<open>JavaScript values used by the worker\<close>

text \<open>
  A JavaScript string is a sequence of UTF-16 code units: \<open>length\<close>, \<open>substring\<close> and
  \<open>trim\<close> of \<open>src/index.ts\<close> count and cut code units. ASCII literals of the source are
  written \<open>js ''...''\<close>.
\<close>

type_synonym code_unit = "16 word"
type_synonym jsstring = "code_unit list"

definition js :: "string \<Rightarrow> jsstring" where
  "js s = map (\<lambda>c. of_nat (of_char c)) s"

text \<open>
  \<open>String.prototype.trim\<close> removes the ECMAScript WhiteSpace and LineTerminator code
  points from both ends: TAB, LF, VT, FF, CR, SP, NBSP, U+1680, U+2000 to U+200A, U+2028,
  U+2029, U+202F, U+205F, U+3000 and U+FEFF.
\<close>

definition is_whitespace :: "code_unit \<Rightarrow> bool" where
  "is_whitespace u \<longleftrightarrow>
     u = 0x0009 \<or> u = 0x000A \<or> u = 0x000B \<or> u = 0x000C \<or> u = 0x000D \<or> u = 0x0020 \<or>
     u = 0x00A0 \<or> u = 0x1680 \<or> (0x2000 \<le> u \<and> u \<le> 0x200A) \<or> u = 0x2028 \<or>
     u = 0x2029 \<or> u = 0x202F \<or> u = 0x205F \<or> u = 0x3000 \<or> u = 0xFEFF"

definition trim :: "jsstring \<Rightarrow> jsstring" where
  "trim s = rev (dropWhile is_whitespace (rev (dropWhile is_whitespace s)))"

text \<open>
  What \<open>String.prototype.toUpperCase\<close> does on a string of ASCII characters: the letters
  \<open>a\<close> to \<open>z\<close> become \<open>A\<close> to \<open>Z\<close>. It stands for the method in the example worlds
  below, whose topics are ASCII words; the method itself is a parameter of the model
  (field \<open>toUpperCase\<close> of \<open>env\<close>).
\<close>

definition upper_unit :: "code_unit \<Rightarrow> code_unit" where
  "upper_unit u = (if 0x61 \<le> u \<and> u \<le> 0x7A then u - 0x20 else u)"

definition ascii_toUpperCase :: "jsstring \<Rightarrow> jsstring" where
  "ascii_toUpperCase s = map upper_unit s"

text \<open>Exceptions of the runtime, as values: a thrown exception is \<open>Inl\<close>.\<close>

datatype js_error = TypeError | NetworkError | ParseError | DbError | AiError

section \<open>Data model\<close>

text \<open>
  \<open>interface NewsArticle\<close>, with \<open>source.name\<close> flattened, and the \<open>category\<close> property
  that \<open>fetchNewsForCategories\<close> adds to every article. A \<open>description\<close> that the news
  source sends as \<open>null\<close> is falsy like the empty string, which is how it is read here.
  The news source also sends a \<open>content\<close> property; \<open>src/index.ts\<close> never reads it.
\<close>

record article =
  title :: jsstring
  description :: jsstring
  url :: jsstring
  publishedAt :: jsstring
  source_name :: jsstring
  category :: jsstring

text \<open>
  What \<open>ai.run\<close> does for one article:
  \<^item> \<open>Ai_rejects\<close>: the call throws;
  \<^item> \<open>Ai_nothing\<close>: \<open>response && response.response\<close> is falsy because the response or
    its \<open>response\<close> property is absent, \<open>null\<close>, \<open>0\<close> or \<open>false\<close>;
  \<^item> \<open>Ai_text s\<close>: \<open>response.response\<close> is the string \<open>s\<close> (the empty string is falsy);
  \<^item> \<open>Ai_non_text\<close>: \<open>response.response\<close> is truthy and not a string, so that
    \<open>.trim()\<close> raises a TypeError.
\<close>

datatype ai_outcome = Ai_rejects | Ai_nothing | Ai_text jsstring | Ai_non_text

text \<open>The body of an HTTP response: reading or parsing it can reject.\<close>

datatype 'a body = Body_fails | Body 'a

text \<open>
  The parsed JSON of the news source: \<open>null\<close> (on which \<open>data.status\<close> raises), or an
  object with \<open>status === 'ok'\<close> or not and its \<open>articles\<close> property: falsy, truthy without
  being an array (\<open>.map\<close> raises), or an array.
\<close>

datatype articles_field = Articles_falsy | Articles_not_array | Articles "article list"

datatype news_data = Json_null | Json_obj bool articles_field

datatype news_outcome =
    News_rejects
  | News_not_ok nat "jsstring body"
  | News_ok "news_data body"

text \<open>
  The answer of the delivery API to \<open>POST /emails\<close>: the request rejects, the response is
  not ok (status, and its text if it can be read), or it is ok and its JSON parses or not.
\<close>

datatype resend_outcome =
    Resend_rejects
  | Resend_not_ok nat "jsstring body"
  | Resend_ok_unparsable
  | Resend_ok

text \<open>A row of table \<open>users\<close> (\<open>id\<close> and \<open>created_at\<close> are never read).\<close>

record user =
  email :: jsstring
  categories :: jsstring
  active :: int

type_synonym store = "user list"

text \<open>
  The bindings of \<open>Env\<close> and the behaviour of the outside world during one invocation:
  whether the database answers, what the news source answers for a category, what the
  model answers for an article, what the delivery API answers for a recipient, and the
  value of \<open>new Date().toDateString()\<close>. The last field is the runtime's
  \<open>String.prototype.toUpperCase\<close>, whose Unicode case mappings are not written out
  here: every property below holds for whatever function it is.
\<close>

record env =
  db_up :: bool
  news :: "jsstring \<Rightarrow> news_outcome"
  ai :: "article \<Rightarrow> ai_outcome"
  resend :: "jsstring \<Rightarrow> resend_outcome"
  NEWS_API_KEY :: jsstring
  RESEND_API_KEY :: "jsstring option"
  today :: jsstring
  toUpperCase :: "jsstring \<Rightarrow> jsstring"

text \<open>The observable actions: calls to the collaborators and \<open>console.error\<close> lines.\<close>

datatype error_line =
    Newsapi_error jsstring nat jsstring
  | Newsapi_returned_error jsstring
  | Error_fetching_news jsstring
  | Error_with_AI_summarization
  | Database_error
  | Subscription_error
  | Error_processing_newsletter
  | Resend_API_error nat jsstring
  | Error_sending_email
  | Cron_job_failed

datatype event =
    Db_select
  | Db_upsert jsstring jsstring
  | News_fetch jsstring
  | Ai_run article
  | Resend_post jsstring jsstring jsstring
  | Console_error error_line

type_synonym 'a io = "(js_error + 'a) \<times> event list"

section \<open>Summarizer\<close>

text \<open>
  \<open>createFallbackSummary\<close>: \<open>article.description || article.title\<close>, cut to 197 code
  units and \<open>'...'\<close> when longer than 200.
\<close>

definition createFallbackSummary :: "article \<Rightarrow> jsstring" where
  "createFallbackSummary a =
     (let description = (if description a \<noteq> [] then description a else title a)
      in if length description > 200 then take 197 description @ js ''...'' else description)"

text \<open>The \<open>try\<close> block of \<open>summarizeArticleWithLlama\<close>.\<close>

definition summarize_try :: "env \<Rightarrow> article \<Rightarrow> jsstring io" where
  "summarize_try e a =
     (case ai e a of
        Ai_rejects \<Rightarrow> (Inl AiError, [Ai_run a])
      | Ai_nothing \<Rightarrow> (Inr (createFallbackSummary a), [Ai_run a])
      | Ai_text s \<Rightarrow>
          (if s \<noteq> [] then (Inr (trim s), [Ai_run a])
           else (Inr (createFallbackSummary a), [Ai_run a]))
      | Ai_non_text \<Rightarrow> (Inl TypeError, [Ai_run a]))"

text \<open>\<open>summarizeArticleWithLlama\<close>: the \<open>catch\<close> logs and returns the fallback.\<close>

definition summarizeArticleWithLlama :: "env \<Rightarrow> article \<Rightarrow> jsstring io" where
  "summarizeArticleWithLlama e a =
     (case summarize_try e a of
        (Inl err, t) \<Rightarrow>
          (Inr (createFallbackSummary a), t @ [Console_error Error_with_AI_summarization])
      | (Inr s, t) \<Rightarrow> (Inr s, t))"

section \<open>Sequencing of effects\<close>

text \<open>
  An \<open>await\<close>ed call followed by the rest of the block: an exception skips the rest;
  otherwise the traces follow one another. \<open>catch_io\<close> is \<open>try { ... } catch { ... }\<close>.
\<close>

definition bind_io :: "'a io \<Rightarrow> ('a \<Rightarrow> 'b io) \<Rightarrow> 'b io" where
  "bind_io m f =
     (case m of
        (Inl err, t) \<Rightarrow> (Inl err, t)
      | (Inr x, t) \<Rightarrow> (case f x of (r, t') \<Rightarrow> (r, t @ t')))"

definition catch_io :: "'a io \<Rightarrow> (js_error \<Rightarrow> 'a io) \<Rightarrow> 'a io" where
  "catch_io m h =
     (case m of
        (Inl err, t) \<Rightarrow> (case h err of (r, t') \<Rightarrow> (r, t @ t'))
      | (Inr x, t) \<Rightarrow> (Inr x, t))"

section \<open>Article source\<close>

text \<open>
  The \<open>try\<close> block of one iteration of the loop of \<open>fetchNewsForCategories\<close>: the
  articles it pushes to \<open>allArticles\<close> (\<open>continue\<close> pushes none).
\<close>

definition fetch_category_try :: "env \<Rightarrow> jsstring \<Rightarrow> article list io" where
  "fetch_category_try e c =
     (case news e c of
        News_rejects \<Rightarrow> (Inl NetworkError, [News_fetch c])
      | News_not_ok st b \<Rightarrow>
          (case b of
             Body_fails \<Rightarrow> (Inl NetworkError, [News_fetch c])
           | Body txt \<Rightarrow> (Inr [], [News_fetch c, Console_error (Newsapi_error c st txt)]))
      | News_ok b \<Rightarrow>
          (case b of
             Body_fails \<Rightarrow> (Inl ParseError, [News_fetch c])
           | Body Json_null \<Rightarrow> (Inl TypeError, [News_fetch c])
           | Body (Json_obj status_ok arts) \<Rightarrow>
               (if status_ok \<and> arts \<noteq> Articles_falsy then
                  (case arts of
                     Articles as \<Rightarrow> (Inr (map (\<lambda>a. a\<lparr>category := c\<rparr>) as), [News_fetch c])
                   | _ \<Rightarrow> (Inl TypeError, [News_fetch c]))
                else (Inr [], [News_fetch c, Console_error (Newsapi_returned_error c)]))))"

definition fetch_category :: "env \<Rightarrow> jsstring \<Rightarrow> article list io" where
  "fetch_category e c =
     catch_io (fetch_category_try e c) (\<lambda>err. (Inr [], [Console_error (Error_fetching_news c)]))"

text \<open>The \<open>for\<close> loop over the categories, with \<open>allArticles\<close> as accumulator.\<close>

fun fetch_loop :: "env \<Rightarrow> jsstring list \<Rightarrow> article list \<Rightarrow> article list io" where
  "fetch_loop e [] allArticles = (Inr allArticles, [])"
| "fetch_loop e (c # cs) allArticles =
     bind_io (fetch_category e c) (\<lambda>categoryArticles.
       fetch_loop e cs (allArticles @ categoryArticles))"

text \<open>
  \<open>fetchNewsForCategories\<close>; the API key only goes into the URL of the request.
\<close>

definition fetchNewsForCategories :: "env \<Rightarrow> jsstring list \<Rightarrow> jsstring \<Rightarrow> article list io" where
  "fetchNewsForCategories e cats apiKey =
     bind_io (fetch_loop e cats []) (\<lambda>allArticles. (Inr (take 10 allArticles), []))"

section \<open>Digest composition\<close>

text \<open>An element of \<open>summaries\<close>: \<open>{ article, summary, category }\<close>.\<close>

record summarized =
  s_article :: article
  summary :: jsstring
  s_category :: jsstring

text \<open>
  \<open>byCategory\<close> is a plain object used as a dictionary. Its own properties are kept in
  creation order. A property read \<open>byCategory[k]\<close> that finds no own property goes to
  \<open>Object.prototype\<close>, whose properties are functions or objects: truthy, and without a
  \<open>push\<close> method.
\<close>

type_synonym by_category = "(jsstring \<times> summarized list) list"

definition object_prototype_names :: "jsstring list" where
  "object_prototype_names =
     [js ''constructor'', js ''__defineGetter__'', js ''__defineSetter__'',
      js ''hasOwnProperty'', js ''__lookupGetter__'', js ''__lookupSetter__'',
      js ''isPrototypeOf'', js ''propertyIsEnumerable'', js ''toString'', js ''valueOf'',
      js ''__proto__'', js ''toLocaleString'']"

definition push_item :: "by_category \<Rightarrow> jsstring \<Rightarrow> summarized \<Rightarrow> by_category" where
  "push_item g k item = map (\<lambda>(k', xs). if k' = k then (k', xs @ [item]) else (k', xs)) g"

text \<open>
  The callback of \<open>summaries.forEach\<close>: an own property receives the item; a name found on
  the prototype is truthy, so no array is created and \<open>.push\<close> raises a TypeError; any
  other name gets a new array, then the item.
\<close>

definition group_step :: "by_category \<Rightarrow> summarized \<Rightarrow> js_error + by_category" where
  "group_step g item =
     (let k = s_category item in
      if k \<in> set (map fst g) then Inr (push_item g k item)
      else if k \<in> set object_prototype_names then Inl TypeError
      else Inr (g @ [(k, [item])]))"

fun group_all :: "by_category \<Rightarrow> summarized list \<Rightarrow> js_error + by_category" where
  "group_all g [] = Inr g"
| "group_all g (item # items) =
     (case group_step g item of Inl err \<Rightarrow> Inl err | Inr g' \<Rightarrow> group_all g' items)"

text \<open>
  \<open>Object.keys\<close> lists the own keys that are array indices first (canonical decimal
  numerals up to \<open>2^32 - 2\<close>), in ascending numeric order, then the other keys in creation
  order (ECMAScript, OrdinaryOwnPropertyKeys).
\<close>

definition is_digit :: "code_unit \<Rightarrow> bool" where
  "is_digit u \<longleftrightarrow> 0x30 \<le> u \<and> u \<le> 0x39"

definition index_value :: "jsstring \<Rightarrow> nat" where
  "index_value s = foldl (\<lambda>n u. 10 * n + (unat u - 48)) 0 s"

definition is_array_index :: "jsstring \<Rightarrow> bool" where
  "is_array_index s \<longleftrightarrow>
     s \<noteq> [] \<and> list_all is_digit s \<and> (s = [0x30] \<or> hd s \<noteq> 0x30) \<and>
     index_value s \<le> 4294967294"

definition own_keys_order :: "jsstring list \<Rightarrow> jsstring list" where
  "own_keys_order ks =
     sort_key index_value (filter is_array_index ks) @ filter (\<lambda>k. \<not> is_array_index k) ks"

definition Object_keys :: "by_category \<Rightarrow> jsstring list" where
  "Object_keys g = own_keys_order (map fst g)"

definition own_property :: "by_category \<Rightarrow> jsstring \<Rightarrow> summarized list" where
  "own_property g k = (case map_of g k of Some xs \<Rightarrow> xs | None \<Rightarrow> [])"

text \<open>The string literals of \<open>formatNewsletter\<close>, as they stand in \<open>src/index.ts\<close>.\<close>

definition nl :: jsstring where
  "nl = [0x000A]"

definition robot_icon :: jsstring where
  "robot_icon = [0xF8FF, 0x00FC, 0x00A7, 0x00F1]"

definition section_icon :: jsstring where
  "section_icon = [0xF8FF, 0x00FC, 0x00EC, 0x221E]"

definition rule_piece :: jsstring where
  "rule_piece = [0x201A, 0x00EE, 0x00C4]"

definition heart_icon :: jsstring where
  "heart_icon = [0x201A, 0x00F9, 0x00A7, 0x00D4, 0x220F, 0x00E8]"

definition repeat :: "jsstring \<Rightarrow> nat \<Rightarrow> jsstring" where
  "repeat s n = concat (replicate n s)"

text \<open>A number in a template literal: its decimal digits.\<close>

fun decimal :: "nat \<Rightarrow> jsstring" where
  "decimal n =
     (if n < 10 then [of_nat (48 + n)] else decimal (n div 10) @ [of_nat (48 + n mod 10)])"

definition header :: "jsstring \<Rightarrow> jsstring" where
  "header date =
     robot_icon @ js '' Your AI Newsletter - '' @ date @ nl @ nl @
     js ''Hello! Here'' @ [0x0027] @ js ''s your personalized news digest:'' @ nl @ nl"

definition render_item :: "nat \<Rightarrow> summarized \<Rightarrow> jsstring" where
  "render_item index item =
     decimal (index + 1) @ js ''. **'' @ title (s_article item) @ js ''**'' @ nl @
     js ''   '' @ summary item @ nl @
     js ''   Source: '' @ source_name (s_article item) @ nl @
     js ''   Read more: '' @ url (s_article item) @ nl @ nl"

definition render_items :: "summarized list \<Rightarrow> jsstring" where
  "render_items items = concat (map (\<lambda>(index, item). render_item index item) (enumerate 0 items))"

definition render_section :: "env \<Rightarrow> jsstring \<Rightarrow> summarized list \<Rightarrow> jsstring" where
  "render_section e c items =
     section_icon @ js '' '' @ toUpperCase e c @ nl @
     repeat rule_piece 40 @ nl @ nl @
     render_items items"

definition footer :: jsstring where
  "footer =
     nl @ repeat rule_piece 31 @ nl @
     js ''Generated with '' @ heart_icon @ js '' by AI Newsletter'' @ nl @
     js ''Powered by Cloudflare Workers & Resend'' @ nl"

text \<open>
  \<open>formatNewsletter\<close>. It reads the clock of the runtime (\<open>new Date().toDateString()\<close>,
  field \<open>today\<close>); the recipient (\<open>email\<close> in the source) is a parameter that the body
  never uses. An exception of the grouping leaves the function.
\<close>

definition formatNewsletter :: "env \<Rightarrow> jsstring \<Rightarrow> summarized list \<Rightarrow> jsstring io" where
  "formatNewsletter e recipient summaries =
     (let date = today e in
      case group_all [] summaries of
        Inl err \<Rightarrow> (Inl err, [])
      | Inr byCategory \<Rightarrow>
          (Inr (header date @
                concat (map (\<lambda>c. render_section e c (own_property byCategory c))
                            (Object_keys byCategory)) @
                footer),
           []))"

section \<open>Delivery\<close>

text \<open>
  The \<open>try\<close> block of \<open>sendEmailWithResend\<close>. The request carries the recipient, the
  subject and the text; its HTML part is computed from the same text and is left out.
  The parameters \<open>fromEmail\<close> and \<open>fromName\<close> keep their defaults at the only call.
\<close>

definition sendEmailWithResend_try :: "env \<Rightarrow> jsstring \<Rightarrow> jsstring \<Rightarrow> jsstring \<Rightarrow> bool io" where
  "sendEmailWithResend_try e to subject content =
     (if RESEND_API_KEY e = None \<or> RESEND_API_KEY e = Some [] then (Inr False, [])
      else
        (case resend e to of
           Resend_rejects \<Rightarrow> (Inl NetworkError, [Resend_post to subject content])
         | Resend_not_ok st b \<Rightarrow>
             (case b of
                Body_fails \<Rightarrow> (Inl NetworkError, [Resend_post to subject content])
              | Body errorText \<Rightarrow>
                  (Inr False,
                   [Resend_post to subject content,
                    Console_error (Resend_API_error st errorText)]))
         | Resend_ok_unparsable \<Rightarrow> (Inl ParseError, [Resend_post to subject content])
         | Resend_ok \<Rightarrow> (Inr True, [Resend_post to subject content])))"

definition sendEmailWithResend :: "env \<Rightarrow> jsstring \<Rightarrow> jsstring \<Rightarrow> jsstring \<Rightarrow> bool io" where
  "sendEmailWithResend e to subject content =
     catch_io (sendEmailWithResend_try e to subject content)
       (\<lambda>err. (Inr False, [Console_error Error_sending_email]))"

section \<open>Orchestration\<close>

text \<open>\<open>categories.split(',')\<close>: the pieces between the commas, at least one.\<close>

fun split_comma :: "jsstring \<Rightarrow> jsstring list" where
  "split_comma [] = [] # []"
| "split_comma (u # s) =
     (if u = 0x002C then [] # split_comma s
      else (case split_comma s of [] \<Rightarrow> [u] # [] | x # xs \<Rightarrow> (u # x) # xs))"

text \<open>
  The loop of \<open>processUserNewsletter\<close> that fills \<open>summaries\<close>; the category of an item
  is \<open>article.category || 'general'\<close>.
\<close>

fun summarize_all :: "env \<Rightarrow> article list \<Rightarrow> summarized list io" where
  "summarize_all e [] = (Inr [], [])"
| "summarize_all e (a # as) =
     bind_io (summarizeArticleWithLlama e a) (\<lambda>s.
       bind_io (summarize_all e as) (\<lambda>rest.
         (Inr (\<lparr>s_article = a, summary = s,
                s_category = (if category a \<noteq> [] then category a else js ''general'')\<rparr> # rest),
          [])))"

definition processUserNewsletter_try :: "env \<Rightarrow> user \<Rightarrow> unit io" where
  "processUserNewsletter_try e u =
     (let categoryList = map trim (split_comma (categories u)) in
      bind_io (fetchNewsForCategories e categoryList (NEWS_API_KEY e)) (\<lambda>articles.
        if length articles = 0 then (Inr (), [])
        else
          bind_io (summarize_all e articles) (\<lambda>summaries.
            bind_io (formatNewsletter e (email u) summaries) (\<lambda>newsletter.
              bind_io
                (sendEmailWithResend e (email u)
                   (robot_icon @ js '' Your AI Newsletter - '' @ today e) newsletter)
                (\<lambda>emailSent. (Inr (), []))))))"

definition processUserNewsletter :: "env \<Rightarrow> user \<Rightarrow> unit io" where
  "processUserNewsletter e u =
     catch_io (processUserNewsletter_try e u)
       (\<lambda>err. (Inr (), [Console_error Error_processing_newsletter]))"

text \<open>
  The loop of \<open>scheduled\<close>: an exception that left \<open>processUserNewsletter\<close> would end it.
\<close>

fun process_users :: "env \<Rightarrow> user list \<Rightarrow> unit io" where
  "process_users e [] = (Inr (), [])"
| "process_users e (u # us) = bind_io (processUserNewsletter e u) (\<lambda>_. process_users e us)"

text \<open>
  The store answers \<open>SELECT * FROM users WHERE active = 1\<close> with the rows whose column
  \<open>active\<close> is 1, in table order, or the call rejects when the database is unreachable.
\<close>

definition select_active :: "store \<Rightarrow> user list" where
  "select_active st = filter (\<lambda>u. active u = 1) st"

definition scheduled_try :: "env \<Rightarrow> store \<Rightarrow> unit io" where
  "scheduled_try e st =
     (if \<not> db_up e then (Inl DbError, [Db_select])
      else
        (let results = select_active st in
         if length results = 0 then (Inr (), [Db_select])
         else bind_io (Inr (), [Db_select]) (\<lambda>_. process_users e results)))"

definition scheduled :: "env \<Rightarrow> store \<Rightarrow> unit io" where
  "scheduled e st =
     catch_io (scheduled_try e st) (\<lambda>err. (Inr (), [Console_error Cron_job_failed]))"

section \<open>Subscription intake\<close>

text \<open>
  What \<open>request.formData()\<close> yields: it rejects when the body is not form data, or it
  gives the value of field \<open>email\<close> (\<open>null\<close> when absent) and all values of field
  \<open>categories\<close>.
\<close>

datatype form_data = Form_rejects | Form "jsstring option" "jsstring list"

datatype response_body = Text jsstring | Success_page jsstring "jsstring list"

record response =
  status :: nat
  body :: response_body

text \<open>\<open>Array.prototype.join(',')\<close>.\<close>

fun join_comma :: "jsstring list \<Rightarrow> jsstring" where
  "join_comma [] = []"
| "join_comma [x] = x"
| "join_comma (x # y # ys) = x @ [0x002C] @ join_comma (y # ys)"

text \<open>
  \<open>INSERT INTO users (email, categories) VALUES (?, ?) ON CONFLICT(email) DO UPDATE SET
  categories = ?, active = 1\<close>; column \<open>active\<close> defaults to 1.
\<close>

definition upsert :: "store \<Rightarrow> jsstring \<Rightarrow> jsstring \<Rightarrow> store" where
  "upsert st em cs =
     (if em \<in> set (map email st)
      then map (\<lambda>u. if email u = em then u\<lparr>categories := cs, active := 1\<rparr> else u) st
      else st @ [\<lparr>email = em, categories = cs, active = 1\<rparr>])"

text \<open>
  \<open>handleSubscribe\<close>: the response, the store after the request and the trace. The outer
  \<open>catch\<close> answers a rejected \<open>formData()\<close>; the inner one a rejected statement.
\<close>

definition handleSubscribe :: "env \<Rightarrow> store \<Rightarrow> form_data \<Rightarrow> response \<times> store \<times> event list" where
  "handleSubscribe e st req =
     (case req of
        Form_rejects \<Rightarrow>
          (\<lparr>status = 500, body = Text (js ''Subscription failed'')\<rparr>, st,
           [Console_error Subscription_error])
      | Form em selectedCategories \<Rightarrow>
          (if em = None \<or> em = Some [] \<or> length selectedCategories = 0 then
             (\<lparr>status = 400, body = Text (js ''Email and at least one category are required'')\<rparr>,
              st, [])
           else
             (let address = (case em of Some a \<Rightarrow> a | None \<Rightarrow> []);
                  categoriesString = join_comma selectedCategories in
              if db_up e then
                (\<lparr>status = 200, body = Success_page address selectedCategories\<rparr>,
                 upsert st address categoriesString,
                 [Db_upsert address categoriesString])
              else
                (\<lparr>status = 500, body = Text (js ''Database error occurred'')\<rparr>, st,
                 [Db_upsert address categoriesString, Console_error Database_error]))))"

section \<open>Notions used to state the properties\<close>


text \<open>The topics of a sequence in the order in which each is seen first.\<close>

definition add_seen :: "'a list \<Rightarrow> 'a \<Rightarrow> 'a list" where
  "add_seen seen x = (if x \<in> set seen then seen else seen @ [x])"

definition first_seen :: "'a list \<Rightarrow> 'a list" where
  "first_seen xs = foldl add_seen [] xs"

text \<open>The items of one topic, in arrival order.\<close>

definition with_topic :: "jsstring \<Rightarrow> summarized list \<Rightarrow> summarized list" where
  "with_topic c items = filter (\<lambda>i. s_category i = c) items"

text \<open>
  A topic that is neither an array index nor the name of a property of
  \<open>Object.prototype\<close>. The seven categories that the subscription form offers, and
  \<open>general\<close>, the default of \<open>processUserNewsletter\<close>, are such topics.
\<close>

definition plain_topic :: "jsstring \<Rightarrow> bool" where
  "plain_topic k \<longleftrightarrow> \<not> is_array_index k \<and> k \<notin> set object_prototype_names"

definition form_categories :: "jsstring list" where
  "form_categories =
     [js ''technology'', js ''business'', js ''science'', js ''health'', js ''sports'',
      js ''entertainment'', js ''general'']"

text \<open>
  An event that can belong to the processing of the subscriber with a given address: a
  delivery request counts only when it is addressed to that subscriber, and a database
  statement never does.
\<close>

definition concerns :: "jsstring \<Rightarrow> event \<Rightarrow> bool" where
  "concerns address ev =
     (case ev of
        Resend_post to subject content \<Rightarrow> to = address
      | Db_select \<Rightarrow> False
      | Db_upsert em cs \<Rightarrow> False
      | _ \<Rightarrow> True)"

section \<open>Example inputs\<close>

definition budget_article :: article where
  "budget_article =
     \<lparr>title = js ''Budget vote'', description = [],
      url = js ''https://example.org/budget'', publishedAt = js ''2025-09-28T10:00:00Z'',
      source_name = js ''Reuters'', category = js ''business''\<rparr>"

definition removed_article :: article where
  "removed_article =
     \<lparr>title = js ''Removed story'', description = js ''[Removed]'',
      url = js ''https://removed.com'', publishedAt = js ''2025-09-28T10:00:00Z'',
      source_name = js ''Reuters'', category = []\<rparr>"

definition chip_article :: article where
  "chip_article =
     \<lparr>title = js ''New chip'', description = js ''A faster chip was announced.'',
      url = js ''https://example.org/chip'', publishedAt = js ''2025-09-28T08:00:00Z'',
      source_name = js ''Wired'', category = []\<rparr>"

definition phone_article :: article where
  "phone_article =
     \<lparr>title = js ''New phone'', description = js ''A thinner phone was announced.'',
      url = js ''https://example.org/phone'', publishedAt = js ''2025-09-28T09:00:00Z'',
      source_name = js ''Verge'', category = []\<rparr>"

text \<open>
  A world in which the news source has two articles for \<open>technology\<close>, one whose
  description is the sentinel for \<open>general\<close>, and answers 500 otherwise; the model is down;
  the delivery API refuses \<open>a@x.com\<close> with 403 and accepts everybody else. All topics of
  the examples are ASCII words.
\<close>

definition base_env :: env where
  "base_env =
     \<lparr>db_up = True,
      news = (\<lambda>c. if c = js ''technology''
                  then News_ok (Body (Json_obj True (Articles [chip_article, phone_article])))
                  else if c = js ''general''
                  then News_ok (Body (Json_obj True (Articles [removed_article])))
                  else News_not_ok 500 (Body (js ''server error''))),
      ai = (\<lambda>a. Ai_rejects),
      resend = (\<lambda>to. if to = js ''a@x.com''
                     then Resend_not_ok 403 (Body (js ''forbidden'')) else Resend_ok),
      NEWS_API_KEY = js ''news-key'',
      RESEND_API_KEY = Some (js ''re_key''),
      today = js ''Mon Nov 02 2026'',
      toUpperCase = ascii_toUpperCase\<rparr>"

definition user_a :: user where
  "user_a = \<lparr>email = js ''a@x.com'', categories = js ''technology'', active = 1\<rparr>"

definition user_b :: user where
  "user_b = \<lparr>email = js ''b@x.com'', categories = js ''technology'', active = 1\<rparr>"

definition user_c :: user where
  "user_c = \<lparr>email = js ''c@x.com'', categories = js ''technology'', active = 0\<rparr>"

definition user_d :: user where
  "user_d = \<lparr>email = js ''d@x.com'', categories = js ''constructor'', active = 1\<rparr>"

definition chip_item :: summarized where
  "chip_item =
     \<lparr>s_article = chip_article\<lparr>category := js ''technology''\<rparr>,
      summary = js ''A faster chip was announced.'', s_category = js ''technology''\<rparr>"

definition phone_item :: summarized where
  "phone_item =
     \<lparr>s_article = phone_article\<lparr>category := js ''technology''\<rparr>,
      summary = js ''A thinner phone was announced.'', s_category = js ''technology''\<rparr>"

definition seven_item :: summarized where
  "seven_item =
     \<lparr>s_article = budget_article\<lparr>category := js ''7''\<rparr>,
      summary = js ''Budget vote'', s_category = js ''7''\<rparr>"

definition constructor_item :: summarized where
  "constructor_item =
     \<lparr>s_article = chip_article\<lparr>category := js ''constructor''\<rparr>,
      summary = js ''A faster chip was announced.'', s_category = js ''constructor''\<rparr>"

section \<open>Basic facts\<close>

lemma js_Nil: "js [] = []"
  by (simp add: js_def)

lemma js_Cons: "js (c # s) = of_nat (of_char c) # js s"
  by (simp add: js_def)

lemma summarize_returns: "\<exists>s. fst (summarizeArticleWithLlama e a) = Inr s"
  by (simp add: summarizeArticleWithLlama_def summarize_try_def split: ai_outcome.split)


lemma snd_bind_io:
  "snd (bind_io m f) = (case fst m of Inl err \<Rightarrow> snd m | Inr x \<Rightarrow> snd m @ snd (f x))"
  by (cases m) (simp add: bind_io_def split: sum.splits prod.splits)

lemma bind_io_first: "snd m = x # t \<Longrightarrow> \<exists>t'. snd (bind_io m f) = x # t'"
  by (cases m) (auto simp add: bind_io_def split: sum.splits prod.splits)

lemma catch_io_first: "snd m = x # t \<Longrightarrow> \<exists>t'. snd (catch_io m h) = x # t'"
  by (cases m) (auto simp add: catch_io_def split: sum.splits prod.splits)

lemma snd_catch_io:
  "snd (catch_io m h) = (case fst m of Inl err \<Rightarrow> snd m @ snd (h err) | Inr x \<Rightarrow> snd m)"
  by (cases m) (simp add: catch_io_def split: sum.splits prod.splits)

lemma bind_io_events:
  assumes "list_all P (snd m)" and "\<And>x. list_all P (snd (f x))"
  shows "list_all P (snd (bind_io m f))"
  using assms by (simp add: snd_bind_io split: sum.splits)

lemma catch_io_events:
  assumes "list_all P (snd m)" and "\<And>err. list_all P (snd (h err))"
  shows "list_all P (snd (catch_io m h))"
  using assms by (simp add: snd_catch_io split: sum.splits)

section \<open>The summarizer\<close>

text \<open>
  C1. The summarizer is to return a non-empty string for every article, whatever the
  model does. The function never throws (\<open>summarize_returns\<close>), but it tests the model's
  text for emptiness before trimming it: when the model answers with three blanks for an
  article that has a title, the summary is the empty string.
\<close>

theorem summarize_blank_response_is_empty:
  "summarizeArticleWithLlama (base_env\<lparr>ai := (\<lambda>a. Ai_text (js ''   ''))\<rparr>) budget_article =
     (Inr [], [Ai_run budget_article])"
  by (simp add: summarizeArticleWithLlama_def summarize_try_def base_env_def trim_def
      is_whitespace_def js_def)

lemma createFallbackSummary_not_empty:
  "title a \<noteq> [] \<or> description a \<noteq> [] \<Longrightarrow> createFallbackSummary a \<noteq> []"
  by (auto simp add: createFallbackSummary_def Let_def)

lemma trim_not_empty:
  assumes "\<not> list_all is_whitespace s"
  shows "trim s \<noteq> []"
proof -
  let ?s1 = "dropWhile is_whitespace s"
  have ne: "?s1 \<noteq> []"
    using assms by (simp add: list_all_iff dropWhile_eq_Nil_conv)
  then have "\<not> is_whitespace (hd ?s1)"
    by (rule hd_dropWhile)
  moreover have "hd ?s1 \<in> set (rev ?s1)"
    using ne by simp
  ultimately have "dropWhile is_whitespace (rev ?s1) \<noteq> []"
    unfolding dropWhile_eq_Nil_conv by blast
  then show ?thesis
    by (simp add: trim_def)
qed

text \<open>
  With a title or a description, the summary is not empty as long as the model's text,
  if there is one, is empty or has a character that is not white space.
\<close>

lemma summarize_not_empty:
  "title a \<noteq> [] \<or> description a \<noteq> [] \<Longrightarrow>
   (\<forall>s. ai e a = Ai_text s \<longrightarrow> s = [] \<or> \<not> list_all is_whitespace s) \<Longrightarrow>
   \<exists>s. fst (summarizeArticleWithLlama e a) = Inr s \<and> s \<noteq> []"
  by (cases "ai e a")
     (auto simp add: summarizeArticleWithLlama_def summarize_try_def createFallbackSummary_not_empty
       trim_not_empty)

text \<open>
  C2, as the code has it. When the model path fails (the call throws, there is no text,
  the text is empty or it is not a string), the summary is the description if it is not
  empty and the title otherwise, cut to 197 code units followed by three dots when it is
  longer than 200. There is no test for the sentinel, no sentence of the body and no
  source name in front.
\<close>

theorem fallback_when_model_fails:
  "ai e a = Ai_rejects \<or> ai e a = Ai_nothing \<or> ai e a = Ai_text [] \<or> ai e a = Ai_non_text \<Longrightarrow>
   fst (summarizeArticleWithLlama e a) =
     Inr (let d = (if description a = [] then title a else description a)
          in if 200 < length d then take 197 d @ js ''...'' else d)"
  by (auto simp add: summarizeArticleWithLlama_def summarize_try_def
      createFallbackSummary_def Let_def)

theorem fallback_when_model_fails_witness:
  "(ai base_env budget_article = Ai_rejects \<or> ai base_env budget_article = Ai_nothing \<or>
    ai base_env budget_article = Ai_text [] \<or> ai base_env budget_article = Ai_non_text) \<and>
   fst (summarizeArticleWithLlama base_env budget_article) = Inr (js ''Budget vote'')"
  using fallback_when_model_fails [of base_env budget_article]
  by (simp add: base_env_def budget_article_def js_def)

text \<open>
  C2, as the claim has it, fails: for an article of Reuters whose description is the
  sentinel, the summary after a failed model call is the sentinel itself, and it does
  not begin with the source name.
\<close>

theorem fallback_returns_sentinel_without_source:
  "fst (summarizeArticleWithLlama base_env removed_article) = Inr (js ''[Removed]'') \<and>
   take (length (source_name removed_article)) (js ''[Removed]'') \<noteq> source_name removed_article"
  by (simp add: summarizeArticleWithLlama_def summarize_try_def createFallbackSummary_def
      base_env_def removed_article_def js_def)

section \<open>The composer and the clock\<close>

lemma snd_formatNewsletter: "snd (formatNewsletter e recipient items) = []"
  by (simp add: formatNewsletter_def Let_def split: sum.splits)

lemma render_section_same_runtime:
  "toUpperCase e1 = toUpperCase e2 \<Longrightarrow> render_section e1 c items = render_section e2 c items"
  by (simp add: render_section_def)








section \<open>The scheduled run\<close>

text \<open>
  C6. When the query for the active subscribers fails, the run consists of that query
  and of one error line: no subscriber is processed, nothing is delivered, and the
  handler returns normally.
\<close>

theorem scheduled_aborts_when_store_fails:
  "\<not> db_up e \<Longrightarrow> scheduled e st = (Inr (), [Db_select, Console_error Cron_job_failed])"
  by (simp add: scheduled_def scheduled_try_def catch_io_def)

theorem scheduled_aborts_when_store_fails_witness:
  "\<not> db_up (base_env\<lparr>db_up := False\<rparr>) \<and>
   scheduled (base_env\<lparr>db_up := False\<rparr>) [user_a, user_b] =
     (Inr (), [Db_select, Console_error Cron_job_failed])"
  using scheduled_aborts_when_store_fails [of "base_env\<lparr>db_up := False\<rparr>" "[user_a, user_b]"]
  by simp

section \<open>Subscription intake\<close>

text \<open>
  C10, as the code has it. A request whose body parses as form data and whose form has
  no email (absent or empty) or no selected category is answered with status 400; no
  statement is sent to the database and the store is as before.
\<close>

theorem handleSubscribe_rejects_before_upsert:
  "em = None \<or> em = Some [] \<or> cats = [] \<Longrightarrow>
   status (fst (handleSubscribe e st (Form em cats))) = 400 \<and>
   fst (snd (handleSubscribe e st (Form em cats))) = st \<and>
   snd (snd (handleSubscribe e st (Form em cats))) = []"
  by (auto simp add: handleSubscribe_def)

theorem handleSubscribe_rejects_before_upsert_witness:
  "(Some (js ''a@x.com'') = None \<or> Some (js ''a@x.com'') = Some [] \<or> ([] :: jsstring list) = []) \<and>
   status (fst (handleSubscribe base_env [user_c] (Form (Some (js ''a@x.com'')) []))) = 400 \<and>
   fst (snd (handleSubscribe base_env [user_c] (Form (Some (js ''a@x.com'')) []))) = [user_c] \<and>
   snd (snd (handleSubscribe base_env [user_c] (Form (Some (js ''a@x.com'')) []))) = []"
  using handleSubscribe_rejects_before_upsert [of "Some (js ''a@x.com'')" "[]" base_env "[user_c]"]
  by simp

text \<open>
  C10, as the claim has it, fails for a request whose body is not form data, which
  carries no email: \<open>formData()\<close> rejects and the answer is 500, not 400 (again without
  any statement to the database).
\<close>

theorem handleSubscribe_answers_500_without_form:
  "status (fst (handleSubscribe base_env [user_c] Form_rejects)) = 500 \<and>
   status (fst (handleSubscribe base_env [user_c] Form_rejects)) \<noteq> 400 \<and>
   fst (snd (handleSubscribe base_env [user_c] Form_rejects)) = [user_c] \<and>
   snd (snd (handleSubscribe base_env [user_c] Form_rejects)) =
     [Console_error Subscription_error]"
  by (simp add: handleSubscribe_def)

section \<open>The article source\<close>





section \<open>Delivery\<close>

text \<open>
  C7. The delivery returns a boolean and never an exception. Without a credential it
  returns false and makes no request. With a credential: a response that is not ok gives
  false after the error line with the status and the text of the response; a rejected
  request, a response whose text cannot be read or whose JSON does not parse gives
  false; the result is true exactly when the response is ok and parses.
\<close>

theorem sendEmailWithResend_returns_boolean:
  "(\<exists>ok. fst (sendEmailWithResend e to subject content) = Inr ok) \<and>
   (RESEND_API_KEY e = None \<or> RESEND_API_KEY e = Some [] \<longrightarrow>
      sendEmailWithResend e to subject content = (Inr False, [])) \<and>
   (RESEND_API_KEY e = Some key \<and> key \<noteq> [] \<and>
      resend e to = Resend_not_ok st (Body errorText) \<longrightarrow>
      sendEmailWithResend e to subject content =
        (Inr False,
         [Resend_post to subject content, Console_error (Resend_API_error st errorText)])) \<and>
   (RESEND_API_KEY e = Some key \<and> key \<noteq> [] \<and>
      (resend e to = Resend_rejects \<or> resend e to = Resend_ok_unparsable \<or>
       resend e to = Resend_not_ok st Body_fails) \<longrightarrow>
      sendEmailWithResend e to subject content =
        (Inr False, [Resend_post to subject content, Console_error Error_sending_email])) \<and>
   (RESEND_API_KEY e = Some key \<and> key \<noteq> [] \<and> resend e to = Resend_ok \<longrightarrow>
      sendEmailWithResend e to subject content =
        (Inr True, [Resend_post to subject content])) \<and>
   (fst (sendEmailWithResend e to subject content) = Inr True \<longrightarrow>
      sendEmailWithResend e to subject content = (Inr True, [Resend_post to subject content])) \<and>
   (fst (sendEmailWithResend e to subject content) = Inr True) =
      ((\<exists>k. RESEND_API_KEY e = Some k \<and> k \<noteq> []) \<and> resend e to = Resend_ok)"
  by (cases "RESEND_API_KEY e"; cases "resend e to")
     (auto simp add: sendEmailWithResend_def sendEmailWithResend_try_def catch_io_def
      split: body.splits)

theorem sendEmailWithResend_returns_boolean_witness:
  "sendEmailWithResend (base_env\<lparr>RESEND_API_KEY := None\<rparr>) (js ''b@x.com'') (js ''s'') (js ''c'') =
     (Inr False, []) \<and>
   sendEmailWithResend base_env (js ''a@x.com'') (js ''s'') (js ''c'') =
     (Inr False,
      [Resend_post (js ''a@x.com'') (js ''s'') (js ''c''),
       Console_error (Resend_API_error 403 (js ''forbidden''))]) \<and>
   sendEmailWithResend (base_env\<lparr>resend := (\<lambda>to. Resend_rejects)\<rparr>)
       (js ''b@x.com'') (js ''s'') (js ''c'') =
     (Inr False,
      [Resend_post (js ''b@x.com'') (js ''s'') (js ''c''), Console_error Error_sending_email]) \<and>
   fst (sendEmailWithResend base_env (js ''b@x.com'') (js ''s'') (js ''c'')) = Inr True \<and>
   sendEmailWithResend base_env (js ''b@x.com'') (js ''s'') (js ''c'') =
     (Inr True, [Resend_post (js ''b@x.com'') (js ''s'') (js ''c'')])"
proof -
  have key: "RESEND_API_KEY base_env = Some (js ''re_key'')" "js ''re_key'' \<noteq> []"
    by (simp_all add: base_env_def js_def)
  have refused: "resend base_env (js ''a@x.com'') = Resend_not_ok 403 (Body (js ''forbidden''))"
    by (simp add: base_env_def)
  have accepted: "resend base_env (js ''b@x.com'') = Resend_ok"
    by (simp add: base_env_def js_def)
  have w1: "sendEmailWithResend (base_env\<lparr>RESEND_API_KEY := None\<rparr>)
      (js ''b@x.com'') (js ''s'') (js ''c'') = (Inr False, [])"
    using sendEmailWithResend_returns_boolean
      [of "base_env\<lparr>RESEND_API_KEY := None\<rparr>" "js ''b@x.com''" "js ''s''" "js ''c''",
        THEN conjunct2, THEN conjunct1]
    by simp
  have w2: "sendEmailWithResend base_env (js ''a@x.com'') (js ''s'') (js ''c'') =
     (Inr False,
      [Resend_post (js ''a@x.com'') (js ''s'') (js ''c''),
       Console_error (Resend_API_error 403 (js ''forbidden''))])"
    using sendEmailWithResend_returns_boolean
      [of base_env "js ''a@x.com''" "js ''s''" "js ''c''" "js ''re_key''" 403 "js ''forbidden''",
        THEN conjunct2, THEN conjunct2, THEN conjunct1]
      key refused
    by simp
  have w3: "sendEmailWithResend (base_env\<lparr>resend := (\<lambda>to. Resend_rejects)\<rparr>)
       (js ''b@x.com'') (js ''s'') (js ''c'') =
     (Inr False,
      [Resend_post (js ''b@x.com'') (js ''s'') (js ''c''), Console_error Error_sending_email])"
    using sendEmailWithResend_returns_boolean
      [of "base_env\<lparr>resend := (\<lambda>to. Resend_rejects)\<rparr>" "js ''b@x.com''" "js ''s''" "js ''c''"
          "js ''re_key''",
        THEN conjunct2, THEN conjunct2, THEN conjunct2, THEN conjunct1]
      key
    by simp
  have w4: "sendEmailWithResend base_env (js ''b@x.com'') (js ''s'') (js ''c'') =
     (Inr True, [Resend_post (js ''b@x.com'') (js ''s'') (js ''c'')])"
    using sendEmailWithResend_returns_boolean
      [of base_env "js ''b@x.com''" "js ''s''" "js ''c''" "js ''re_key''",
        THEN conjunct2, THEN conjunct2, THEN conjunct2, THEN conjunct2, THEN conjunct1]
      key accepted
    by simp
  show ?thesis
    using w1 w2 w3 w4 by simp
qed

section \<open>One subscriber after the other\<close>

lemma processUserNewsletter_returns: "fst (processUserNewsletter e u) = Inr ()"
  by (simp add: processUserNewsletter_def catch_io_def split: prod.splits sum.splits)

lemma process_users_trace:
  "process_users e us = (Inr (), concat (map (\<lambda>u. snd (processUserNewsletter e u)) us))"
proof (induction us)
  case Nil
  show ?case by simp
next
  case (Cons u us)
  obtain t where "processUserNewsletter e u = (Inr (), t)"
    using processUserNewsletter_returns [of e u] by (cases "processUserNewsletter e u") auto
  then show ?case
    using Cons.IH by (simp add: bind_io_def)
qed

lemma split_comma_not_Nil: "split_comma s \<noteq> []"
  by (cases s) (auto split: list.splits)

lemma fetch_category_try_first: "\<exists>t. snd (fetch_category_try e c) = News_fetch c # t"
  by (simp add: fetch_category_try_def
      split: news_outcome.splits body.splits news_data.splits articles_field.splits)

lemma fetch_category_first: "\<exists>t. snd (fetch_category e c) = News_fetch c # t"
proof -
  obtain t where "snd (fetch_category_try e c) = News_fetch c # t"
    using fetch_category_try_first by blast
  then show ?thesis
    unfolding fetch_category_def by (rule catch_io_first)
qed

lemma fetch_loop_first: "\<exists>t. snd (fetch_loop e (c # cs) acc) = News_fetch c # t"
proof -
  obtain t where "snd (fetch_category e c) = News_fetch c # t"
    using fetch_category_first by blast
  then show ?thesis
    unfolding fetch_loop.simps by (rule bind_io_first)
qed

lemma processUserNewsletter_fetches:
  "\<exists>c t. snd (processUserNewsletter e u) = News_fetch c # t"
proof -
  obtain c cs where cl: "map trim (split_comma (categories u)) = c # cs"
    using split_comma_not_Nil [of "categories u"] by (cases "split_comma (categories u)") auto
  obtain t1 where "snd (fetch_loop e (c # cs) []) = News_fetch c # t1"
    using fetch_loop_first by blast
  then have "\<exists>t2. snd (fetchNewsForCategories e (c # cs) (NEWS_API_KEY e)) = News_fetch c # t2"
    unfolding fetchNewsForCategories_def by (rule bind_io_first)
  then obtain t2 where
    "snd (fetchNewsForCategories e (c # cs) (NEWS_API_KEY e)) = News_fetch c # t2"
    by blast
  then have "\<exists>t3. snd (processUserNewsletter_try e u) = News_fetch c # t3"
    unfolding processUserNewsletter_try_def Let_def cl by (rule bind_io_first)
  then obtain t3 where "snd (processUserNewsletter_try e u) = News_fetch c # t3"
    by blast
  then have "\<exists>t. snd (processUserNewsletter e u) = News_fetch c # t"
    unfolding processUserNewsletter_def by (rule catch_io_first)
  then show ?thesis by blast
qed

text \<open>
  C3. Whatever happens while one subscriber is processed (a failed fetch, a failed model
  call, an exception of the composer, a failed delivery), \<open>processUserNewsletter\<close> returns
  normally, and it begins with a request to the news source. The loop therefore runs to
  its end: the trace of the run is the trace of the first subscriber, then that of the
  second, and so on for every subscriber of the list.
\<close>

theorem failures_stay_with_their_subscriber:
  "fst (processUserNewsletter e u) = Inr () \<and>
   (\<exists>c t. snd (processUserNewsletter e u) = News_fetch c # t) \<and>
   process_users e us = (Inr (), concat (map (\<lambda>u. snd (processUserNewsletter e u)) us))"
  using processUserNewsletter_returns processUserNewsletter_fetches process_users_trace
  by blast

lemma select_active_idem: "select_active (select_active st) = select_active st"
  by (simp add: select_active_def)

text \<open>
  Every delivery request made while a subscriber is processed is addressed to that
  subscriber.
\<close>

lemma fetch_category_events: "list_all (concerns address) (snd (fetch_category e c))"
  unfolding fetch_category_def
  by (rule catch_io_events)
     (simp_all add: fetch_category_try_def concerns_def
       split: news_outcome.splits body.splits news_data.splits articles_field.splits)

lemma fetch_loop_events: "list_all (concerns address) (snd (fetch_loop e cs acc))"
proof (induction cs arbitrary: acc)
  case Nil
  show ?case by simp
next
  case (Cons c cs)
  show ?case
    unfolding fetch_loop.simps
    by (rule bind_io_events) (simp_all add: fetch_category_events Cons.IH)
qed

lemma fetchNewsForCategories_events:
  "list_all (concerns address) (snd (fetchNewsForCategories e cats apiKey))"
  unfolding fetchNewsForCategories_def
  by (rule bind_io_events) (simp_all add: fetch_loop_events)

lemma summarize_events: "list_all (concerns address) (snd (summarizeArticleWithLlama e a))"
  by (simp add: summarizeArticleWithLlama_def summarize_try_def concerns_def split: ai_outcome.splits)

lemma summarize_all_events: "list_all (concerns address) (snd (summarize_all e as))"
proof (induction as)
  case Nil
  show ?case by simp
next
  case (Cons a as)
  show ?case
    unfolding summarize_all.simps
    by (rule bind_io_events, simp add: summarize_events, rule bind_io_events)
       (simp_all add: Cons.IH)
qed

lemma sendEmailWithResend_events:
  "list_all (concerns to) (snd (sendEmailWithResend e to subject content))"
  unfolding sendEmailWithResend_def
  by (rule catch_io_events)
     (simp_all add: sendEmailWithResend_try_def concerns_def
       split: resend_outcome.splits body.splits)

lemma processUserNewsletter_events:
  "list_all (concerns (email u)) (snd (processUserNewsletter e u))"
proof -
  have deliver: "list_all (concerns (email u))
      (snd (bind_io (sendEmailWithResend e (email u) subject newsletter)
             (\<lambda>emailSent. (Inr (), []))))" for subject newsletter
    by (rule bind_io_events) (simp_all add: sendEmailWithResend_events)
  have compose: "list_all (concerns (email u))
      (snd (bind_io (formatNewsletter e (email u) summaries) (\<lambda>newsletter.
              bind_io (sendEmailWithResend e (email u) subject newsletter)
                (\<lambda>emailSent. (Inr (), [])))))" for subject summaries
    by (rule bind_io_events) (simp_all add: snd_formatNewsletter deliver)
  have summarize: "list_all (concerns (email u))
      (snd (bind_io (summarize_all e articles) (\<lambda>summaries.
              bind_io (formatNewsletter e (email u) summaries) (\<lambda>newsletter.
                bind_io (sendEmailWithResend e (email u) subject newsletter)
                  (\<lambda>emailSent. (Inr (), []))))))" for subject articles
    by (rule bind_io_events) (simp_all add: summarize_all_events compose)
  have "list_all (concerns (email u)) (snd (processUserNewsletter_try e u))"
    unfolding processUserNewsletter_try_def Let_def
    by (rule bind_io_events) (simp_all add: fetchNewsForCategories_events summarize)
  then show ?thesis
    unfolding processUserNewsletter_def
    by (rule catch_io_events) (simp add: concerns_def)
qed

lemma scheduled_trace:
  "snd (scheduled e st) =
     Db_select #
       (if db_up e then concat (map (\<lambda>u. snd (processUserNewsletter e u)) (select_active st))
        else [Console_error Cron_job_failed])"
  by (simp add: scheduled_def scheduled_try_def catch_io_def bind_io_def
      process_users_trace Let_def)

lemma no_delivery_to_inactive:
  assumes d: "distinct (map email st)" and v: "v \<in> set st" and i: "active v \<noteq> 1"
  shows "Resend_post (email v) subject content \<notin> set (snd (scheduled e st))"
proof
  assume "Resend_post (email v) subject content \<in> set (snd (scheduled e st))"
  then obtain u where u: "u \<in> set (select_active st)"
      and m: "Resend_post (email v) subject content \<in> set (snd (processUserNewsletter e u))"
    by (auto simp add: scheduled_trace split: if_splits)
  have "concerns (email u) (Resend_post (email v) subject content)"
    using processUserNewsletter_events [of u e] m unfolding list_all_iff by blast
  then have "email v = email u"
    by (simp add: concerns_def)
  moreover have "u \<in> set st" "active u = 1"
    using u by (simp_all add: select_active_def)
  ultimately have "u = v"
    using d v by (simp add: distinct_map inj_on_def)
  then show False
    using i \<open>active u = 1\<close> by simp
qed

text \<open>
  C8. The run reads the rows whose column \<open>active\<close> is 1 and calls
  \<open>processUserNewsletter\<close>, where all fetching, summarizing and delivering is done, for
  these rows only: the run is the same as the run on the store without the inactive
  rows; its trace is the query followed by the traces of the active subscribers; and in
  a store with one row for each address, no delivery request goes to the address of a
  row that is not active.
\<close>

theorem scheduled_processes_active_subscribers_only:
  "scheduled e st = scheduled e (select_active st) \<and>
   snd (scheduled e st) =
     Db_select #
       (if db_up e then concat (map (\<lambda>u. snd (processUserNewsletter e u)) (select_active st))
        else [Console_error Cron_job_failed]) \<and>
   (distinct (map email st) \<and> v \<in> set st \<and> active v \<noteq> 1 \<longrightarrow>
      Resend_post (email v) subject content \<notin> set (snd (scheduled e st)))"
proof -
  have "scheduled e st = scheduled e (select_active st)"
    by (simp add: scheduled_def scheduled_try_def select_active_idem)
  then show ?thesis
    using scheduled_trace [of e st] no_delivery_to_inactive [of st v subject content e]
    by blast
qed

theorem scheduled_processes_active_subscribers_only_witness:
  "snd (scheduled base_env [user_c, user_a]) =
     Db_select # snd (processUserNewsletter base_env user_a) \<and>
   distinct (map email [user_c, user_a]) \<and> user_c \<in> set [user_c, user_a] \<and>
   active user_c \<noteq> 1 \<and>
   Resend_post (email user_c) (js ''s'') (js ''c'') \<notin> set (snd (scheduled base_env [user_c, user_a]))"
proof -
  have sel: "select_active [user_c, user_a] = [user_a]"
    by (simp add: select_active_def user_a_def user_c_def)
  have up: "db_up base_env"
    by (simp add: base_env_def)
  have d: "distinct (map email [user_c, user_a])"
    by (simp add: user_a_def user_c_def js_def)
  have i: "active user_c \<noteq> 1"
    by (simp add: user_c_def)
  have t: "snd (scheduled base_env [user_c, user_a]) =
      Db_select # snd (processUserNewsletter base_env user_a)"
    using scheduled_processes_active_subscribers_only
      [of base_env "[user_c, user_a]", THEN conjunct2, THEN conjunct1]
    by (simp add: sel up)
  have n: "Resend_post (email user_c) (js ''s'') (js ''c'') \<notin>
      set (snd (scheduled base_env [user_c, user_a]))"
    using scheduled_processes_active_subscribers_only
      [of base_env "[user_c, user_a]" user_c "js ''s''" "js ''c''", THEN conjunct2, THEN conjunct2]
      d i
    by simp
  show ?thesis
    using t n d i by simp
qed

text \<open>
  Two runs, step by step. In the first the delivery to \<open>a@x.com\<close> is refused with 403,
  the inactive \<open>c@x.com\<close> is not read, and \<open>b@x.com\<close> gets its digest. In the second the
  topic of the first subscriber is \<open>constructor\<close>: the composer raises a TypeError, which
  is caught with that subscriber, and the next one gets its digest.
\<close>

lemmas run_defs = scheduled_def scheduled_try_def select_active_def
  processUserNewsletter_def processUserNewsletter_try_def catch_io_def bind_io_def
  fetchNewsForCategories_def fetch_category_def fetch_category_try_def
  summarizeArticleWithLlama_def summarize_try_def formatNewsletter_def group_step_def
  object_prototype_names_def sendEmailWithResend_def sendEmailWithResend_try_def
  trim_def is_whitespace_def js_def Let_def

lemma run_with_refused_delivery:
  "\<exists>sa ca sb cb. scheduled base_env [user_a, user_c, user_b] =
     (Inr (),
      [Db_select,
       News_fetch (js ''technology''),
       Ai_run (chip_article\<lparr>category := js ''technology''\<rparr>),
       Console_error Error_with_AI_summarization,
       Ai_run (phone_article\<lparr>category := js ''technology''\<rparr>),
       Console_error Error_with_AI_summarization,
       Resend_post (js ''a@x.com'') sa ca,
       Console_error (Resend_API_error 403 (js ''forbidden'')),
       News_fetch (js ''technology''),
       Ai_run (chip_article\<lparr>category := js ''technology''\<rparr>),
       Console_error Error_with_AI_summarization,
       Ai_run (phone_article\<lparr>category := js ''technology''\<rparr>),
       Console_error Error_with_AI_summarization,
       Resend_post (js ''b@x.com'') sb cb])"
  by (simp add: run_defs base_env_def user_a_def user_b_def user_c_def chip_article_def
      phone_article_def)

lemma run_with_composer_exception:
  "\<exists>sb cb.
     scheduled
       (base_env\<lparr>news := (\<lambda>c. News_ok (Body (Json_obj True (Articles [chip_article]))))\<rparr>)
       [user_d, user_b] =
     (Inr (),
      [Db_select,
       News_fetch (js ''constructor''),
       Ai_run (chip_article\<lparr>category := js ''constructor''\<rparr>),
       Console_error Error_with_AI_summarization,
       Console_error Error_processing_newsletter,
       News_fetch (js ''technology''),
       Ai_run (chip_article\<lparr>category := js ''technology''\<rparr>),
       Console_error Error_with_AI_summarization,
       Resend_post (js ''b@x.com'') sb cb])"
  by (simp add: run_defs base_env_def user_d_def user_b_def chip_article_def)

section \<open>Grouping by topic\<close>

lemma keys_push_item: "map fst (push_item g k item) = map fst g"
  by (induction g) (auto simp add: push_item_def)

lemma map_of_push_item:
  "map_of (push_item g k item) c =
     (if c = k then map_option (\<lambda>xs. xs @ [item]) (map_of g c) else map_of g c)"
  by (induction g) (auto simp add: push_item_def)

lemma own_property_absent: "c \<notin> fst ` set g \<Longrightarrow> own_property g c = []"
  by (simp add: own_property_def map_of_eq_None_iff [THEN iffD2])

lemma own_property_push_item:
  "k \<in> fst ` set g \<Longrightarrow>
   own_property (push_item g k item) c =
     (if c = k then own_property g c @ [item] else own_property g c)"
  by (cases "map_of g k") (auto simp add: own_property_def map_of_push_item map_of_eq_None_iff)

lemma own_property_new:
  "k \<notin> fst ` set g \<Longrightarrow>
   own_property (g @ [(k, [item])]) c = (if c = k then [item] else own_property g c)"
  by (auto simp add: own_property_def map_of_eq_None_iff [THEN iffD2] map_add_def
      split: option.splits)

lemma group_step_groups:
  assumes "s_category item \<notin> set object_prototype_names"
  shows "\<exists>g'. group_step g item = Inr g' \<and>
           map fst g' = add_seen (map fst g) (s_category item) \<and>
           (\<forall>c. own_property g' c = own_property g c @ with_topic c [item])"
proof (cases "s_category item \<in> set (map fst g)")
  case True
  then show ?thesis
    by (simp add: group_step_def Let_def keys_push_item own_property_push_item add_seen_def
        with_topic_def)
next
  case False
  then show ?thesis
    using assms
    by (auto simp add: group_step_def Let_def add_seen_def with_topic_def
        own_property_new own_property_absent)
qed

lemma group_all_groups:
  "list_all (\<lambda>i. s_category i \<notin> set object_prototype_names) items \<Longrightarrow>
   \<exists>g'. group_all g items = Inr g' \<and>
        map fst g' = foldl add_seen (map fst g) (map s_category items) \<and>
        (\<forall>c. own_property g' c = own_property g c @ with_topic c items)"
proof (induction items arbitrary: g)
  case Nil
  show ?case by (simp add: with_topic_def)
next
  case (Cons item items)
  then have p: "s_category item \<notin> set object_prototype_names"
    and ps: "list_all (\<lambda>i. s_category i \<notin> set object_prototype_names) items"
    by simp_all
  obtain g1 where g1: "group_step g item = Inr g1"
      "map fst g1 = add_seen (map fst g) (s_category item)"
      "\<forall>c. own_property g1 c = own_property g c @ with_topic c [item]"
    using group_step_groups [OF p, of g] by blast
  obtain g2 where g2: "group_all g1 items = Inr g2"
      "map fst g2 = foldl add_seen (map fst g1) (map s_category items)"
      "\<forall>c. own_property g2 c = own_property g1 c @ with_topic c items"
    using Cons.IH [OF ps, of g1] by blast
  show ?case
    using g1 g2 by (simp add: with_topic_def)
qed

lemma set_add_seen: "set (foldl add_seen seen xs) = set seen \<union> set xs"
  by (induction xs arbitrary: seen) (auto simp add: add_seen_def)

lemma distinct_add_seen: "distinct seen \<Longrightarrow> distinct (foldl add_seen seen xs)"
  by (induction xs arbitrary: seen) (auto simp add: add_seen_def)

lemma set_first_seen: "set (first_seen xs) = set xs"
  by (simp add: first_seen_def set_add_seen)

lemma distinct_first_seen: "distinct (first_seen xs)"
  by (simp add: first_seen_def distinct_add_seen)

lemma set_own_keys_order: "set (own_keys_order ks) = set ks"
  by (auto simp add: own_keys_order_def)

lemma distinct_own_keys_order: "distinct ks \<Longrightarrow> distinct (own_keys_order ks)"
  by (auto simp add: own_keys_order_def)

lemma own_keys_order_others:
  "filter (\<lambda>k. \<not> is_array_index k) (own_keys_order ks) = filter (\<lambda>k. \<not> is_array_index k) ks"
proof -
  have "filter (\<lambda>k. \<not> is_array_index k) (sort_key index_value (filter is_array_index ks)) = []"
    by (simp add: filter_empty_conv)
  then show ?thesis
    by (simp add: own_keys_order_def)
qed

lemma own_keys_order_plain:
  "list_all (\<lambda>k. \<not> is_array_index k) ks \<Longrightarrow> own_keys_order ks = ks"
  by (simp add: own_keys_order_def list_all_iff filter_empty_conv [THEN iffD2]
      filter_id_conv [THEN iffD2])

lemma form_categories_plain: "list_all plain_topic form_categories"
  by (simp add: form_categories_def plain_topic_def is_array_index_def is_digit_def
      object_prototype_names_def js_def)

text \<open>
  C9, as the code has it. When no topic is the name of a property of \<open>Object.prototype\<close>,
  the digest is the header, one section per topic with exactly the items of that topic
  in arrival order, and the footer. The sections stand in the order of \<open>Object.keys\<close>:
  the topics that are array indices first, in ascending numeric order, then the other
  topics in the order in which they are seen first. Every topic has one section, and
  without a topic that is an array index the order of the sections is the first-seen
  order.
\<close>

theorem formatNewsletter_groups_by_topic:
  assumes "list_all (\<lambda>i. s_category i \<notin> set object_prototype_names) items"
  shows "formatNewsletter e recipient items =
     (Inr (header (today e) @
           concat (map (\<lambda>c. render_section e c (with_topic c items))
                       (own_keys_order (first_seen (map s_category items)))) @
           footer), []) \<and>
   distinct (own_keys_order (first_seen (map s_category items))) \<and>
   set (own_keys_order (first_seen (map s_category items))) = set (map s_category items) \<and>
   filter (\<lambda>k. \<not> is_array_index k) (own_keys_order (first_seen (map s_category items))) =
     filter (\<lambda>k. \<not> is_array_index k) (first_seen (map s_category items)) \<and>
   (list_all (\<lambda>i. \<not> is_array_index (s_category i)) items \<longrightarrow>
      own_keys_order (first_seen (map s_category items)) = first_seen (map s_category items))"
proof -
  obtain g where g: "group_all [] items = Inr g"
      "map fst g = first_seen (map s_category items)"
      "\<forall>c. own_property g c = with_topic c items"
    using group_all_groups [OF assms, of "[]"] by (auto simp add: first_seen_def own_property_def)
  have digest: "formatNewsletter e recipient items =
     (Inr (header (today e) @
           concat (map (\<lambda>c. render_section e c (with_topic c items))
                       (own_keys_order (first_seen (map s_category items)))) @
           footer), [])"
    using g by (simp add: formatNewsletter_def Object_keys_def)
  have plain: "own_keys_order (first_seen (map s_category items)) =
      first_seen (map s_category items)"
    if "list_all (\<lambda>i. \<not> is_array_index (s_category i)) items"
  proof -
    have "list_all (\<lambda>k. \<not> is_array_index k) (first_seen (map s_category items))"
      using that unfolding list_all_iff set_first_seen by auto
    then show ?thesis
      by (rule own_keys_order_plain)
  qed
  show ?thesis
    using digest plain
    by (simp add: distinct_own_keys_order distinct_first_seen set_own_keys_order
        set_first_seen own_keys_order_others)
qed

text \<open>
  The scenario of the specification: two technology items give one section, headed
  TECHNOLOGY, with the two items in fetch order. A single item of topic \<open>7\<close> gives one
  section with that item.
\<close>

theorem formatNewsletter_groups_by_topic_witness:
  "list_all (\<lambda>i. s_category i \<notin> set object_prototype_names) [chip_item, phone_item] \<and>
   list_all (\<lambda>i. \<not> is_array_index (s_category i)) [chip_item, phone_item] \<and>
   formatNewsletter base_env (js ''a@x.com'') [chip_item, phone_item] =
     (Inr (header (js ''Mon Nov 02 2026'') @
           render_section base_env (js ''technology'') [chip_item, phone_item] @ footer), []) \<and>
   toUpperCase base_env (js ''technology'') = js ''TECHNOLOGY'' \<and>
   list_all (\<lambda>i. s_category i \<notin> set object_prototype_names) [seven_item] \<and>
   formatNewsletter base_env (js ''a@x.com'') [seven_item] =
     (Inr (header (js ''Mon Nov 02 2026'') @
           render_section base_env (js ''7'') [seven_item] @ footer), [])"
proof -
  have free2: "list_all (\<lambda>i. s_category i \<notin> set object_prototype_names) [chip_item, phone_item]"
    by (simp add: object_prototype_names_def chip_item_def phone_item_def js_def)
  have plain2: "list_all (\<lambda>i. \<not> is_array_index (s_category i)) [chip_item, phone_item]"
    by (simp add: is_array_index_def is_digit_def chip_item_def phone_item_def js_def)
  have free1: "list_all (\<lambda>i. s_category i \<notin> set object_prototype_names) [seven_item]"
    by (simp add: object_prototype_names_def seven_item_def js_def)
  have seen2: "first_seen [s_category chip_item, s_category phone_item] = [js ''technology'']"
    by (simp add: first_seen_def add_seen_def chip_item_def phone_item_def)
  have order2: "own_keys_order [js ''technology''] = [js ''technology'']"
    by (simp add: own_keys_order_def is_array_index_def is_digit_def js_def)
  have seen1: "own_keys_order (first_seen [s_category seven_item]) = [js ''7'']"
    by (simp add: first_seen_def add_seen_def own_keys_order_def seven_item_def)
  have topic2: "with_topic (js ''technology'') [chip_item, phone_item] = [chip_item, phone_item]"
    by (simp add: with_topic_def chip_item_def phone_item_def)
  have topic1: "with_topic (js ''7'') [seven_item] = [seven_item]"
    by (simp add: with_topic_def seven_item_def)
  have upper: "toUpperCase base_env (js ''technology'') = js ''TECHNOLOGY''"
    by (simp add: base_env_def ascii_toUpperCase_def upper_unit_def js_def)
  have clock: "today base_env = js ''Mon Nov 02 2026''"
    by (simp add: base_env_def)
  have two: "formatNewsletter base_env (js ''a@x.com'') [chip_item, phone_item] =
     (Inr (header (js ''Mon Nov 02 2026'') @
           render_section base_env (js ''technology'') [chip_item, phone_item] @ footer), [])"
    using formatNewsletter_groups_by_topic
      [OF free2, of base_env "js ''a@x.com''", THEN conjunct1]
    by (simp add: seen2 order2 topic2 clock)
  have one: "formatNewsletter base_env (js ''a@x.com'') [seven_item] =
     (Inr (header (js ''Mon Nov 02 2026'') @
           render_section base_env (js ''7'') [seven_item] @ footer), [])"
    using formatNewsletter_groups_by_topic
      [OF free1, of base_env "js ''a@x.com''", THEN conjunct1]
    by (simp add: seen1 topic1 clock)
  show ?thesis
    using free2 plain2 free1 upper two one by simp
qed

text \<open>
  C9, as the claim has it, fails in two ways. \<open>Object.keys\<close> lists a key that is an array
  index before the other keys: with a technology item followed by an item of topic \<open>7\<close>,
  the section of \<open>7\<close> comes first, although \<open>technology\<close> was seen first. And for an item
  of topic \<open>constructor\<close> the grouping raises a TypeError: there is no digest.
\<close>

theorem formatNewsletter_puts_index_topic_first:
  "formatNewsletter base_env (js ''a@x.com'') [chip_item, seven_item] =
     (Inr (header (js ''Mon Nov 02 2026'') @
           render_section base_env (js ''7'') [seven_item] @
           render_section base_env (js ''technology'') [chip_item] @ footer), []) \<and>
   first_seen (map s_category [chip_item, seven_item]) = [js ''technology'', js ''7''] \<and>
   formatNewsletter base_env (js ''a@x.com'') [constructor_item] = (Inl TypeError, [])"
  by (simp add: formatNewsletter_def group_step_def Let_def object_prototype_names_def
      Object_keys_def own_keys_order_def is_array_index_def is_digit_def index_value_def
      own_property_def chip_item_def seven_item_def constructor_item_def first_seen_def
      add_seen_def base_env_def js_def)

end
